theory Spec2Isabelle
  imports Main "HOL-Library.Sublist"
begin

section \<open>Python strings\<close>

text \<open>
  A Python \<open>str\<close> is a sequence of Unicode code points, and slicing, \<open>len\<close>, \<open>split\<close> and
  \<open>strip\<close> count code points. The titles handled here contain the em-dash (U+2014), which
  is not a byte, so a string is modelled as the list of its code points.
\<close>

type_synonym ustring = "nat list"

definition asc :: "string \<Rightarrow> ustring" where
  \<comment> \<open>an ASCII literal of the source, as code points\<close>
  "asc s = map of_char s"

definition EM_DASH :: nat where
  "EM_DASH = 8212"

definition HYPHEN :: nat where
  "HYPHEN = 45"

definition isspace :: "nat \<Rightarrow> bool" where
  \<comment> \<open>the code points that \<open>str.strip()\<close> and \<open>str.split()\<close> treat as whitespace\<close>
  "isspace c \<longleftrightarrow>
     (9 \<le> c \<and> c \<le> 13) \<or> (28 \<le> c \<and> c \<le> 32) \<or> c = 133 \<or> c = 160 \<or> c = 5760 \<or>
     (8192 \<le> c \<and> c \<le> 8202) \<or> c = 8232 \<or> c = 8233 \<or> c = 8239 \<or> c = 8287 \<or> c = 12288"

definition strip :: "ustring \<Rightarrow> ustring" where
  \<comment> \<open>\<open>s.strip()\<close>\<close>
  "strip s = rev (dropWhile isspace (rev (dropWhile isspace s)))"

fun words_acc :: "ustring \<Rightarrow> ustring \<Rightarrow> ustring list" where
  "words_acc cur [] = (if cur = [] then [] else [cur])"
| "words_acc cur (c # cs) =
     (if isspace c then (if cur = [] then words_acc [] cs else cur # words_acc [] cs)
      else words_acc (cur @ [c]) cs)"

definition split_ws :: "ustring \<Rightarrow> ustring list" where
  \<comment> \<open>\<open>s.split()\<close>: the maximal runs of non-whitespace, in order\<close>
  "split_ws s = words_acc [] s"

fun split_acc :: "nat \<Rightarrow> ustring \<Rightarrow> ustring \<Rightarrow> ustring list" where
  "split_acc sep cur [] = [cur]"
| "split_acc sep cur (c # cs) =
     (if c = sep then cur # split_acc sep [] cs else split_acc sep (cur @ [c]) cs)"

definition split_on :: "nat \<Rightarrow> ustring \<Rightarrow> ustring list" where
  \<comment> \<open>\<open>s.split(sep)\<close> for a separator of one character\<close>
  "split_on sep s = split_acc sep [] s"

subsection \<open>The fixed messages of the source\<close>

definition NO_DATA :: ustring where
  \<comment> \<open>"Net dannykh dlya summarizatsii" (no data to summarize)\<close>
  "NO_DATA = [1053, 1077, 1090, 32, 1076, 1072, 1085, 1085, 1099, 1093, 32, 1076, 1083, 1103,
     32, 1089, 1091, 1084, 1084, 1072, 1088, 1080, 1079, 1072, 1094, 1080, 1080]"

definition NO_SUMMARY :: ustring where
  \<comment> \<open>"Ne udalos sozdat kratkoe soderzhanie" (could not create a summary)\<close>
  "NO_SUMMARY = [1053, 1077, 32, 1091, 1076, 1072, 1083, 1086, 1089, 1100, 32, 1089, 1086, 1079,
     1076, 1072, 1090, 1100, 32, 1082, 1088, 1072, 1090, 1082, 1086, 1077, 32, 1089, 1086, 1076,
     1077, 1088, 1078, 1072, 1085, 1080, 1077]"

definition SUMMARY_ERROR :: ustring where
  \<comment> \<open>"Oshibka pri sozdanii kratkogo soderzhaniya" (error while creating the summary)\<close>
  "SUMMARY_ERROR = [1054, 1096, 1080, 1073, 1082, 1072, 32, 1087, 1088, 1080, 32, 1089, 1086,
     1079, 1076, 1072, 1085, 1080, 1080, 32, 1082, 1088, 1072, 1090, 1082, 1086, 1075, 1086, 32,
     1089, 1086, 1076, 1077, 1088, 1078, 1072, 1085, 1080, 1103]"

definition NO_RESULTS_FOUND :: ustring where
  \<comment> \<open>"Rezultaty ne naydeny." (no results found)\<close>
  "NO_RESULTS_FOUND = [1056, 1077, 1079, 1091, 1083, 1100, 1090, 1072, 1090, 1099, 32, 1085,
     1077, 32, 1085, 1072, 1081, 1076, 1077, 1085, 1099, 46]"

definition NO_RESULTS :: ustring where
  \<comment> \<open>"Net rezultatov" (no results)\<close>
  "NO_RESULTS = [1053, 1077, 1090, 32, 1088, 1077, 1079, 1091, 1083, 1100, 1090, 1072, 1090,
     1086, 1074]"

definition LINK_TITLE :: ustring where
  \<comment> \<open>"Ssylka" (link)\<close>
  "LINK_TITLE = [1057, 1089, 1099, 1083, 1082, 1072]"

definition UNKNOWN_SOURCE :: ustring where
  \<comment> \<open>"Neizvestnyy istochnik" (unknown source)\<close>
  "UNKNOWN_SOURCE = [1053, 1077, 1080, 1079, 1074, 1077, 1089, 1090, 1085, 1099, 1081, 32, 1080,
     1089, 1090, 1086, 1095, 1085, 1080, 1082]"

definition QUERY_TOO_SHORT :: ustring where
  \<comment> \<open>"Zapros dolzhen soderzhat minimum 3 simvola." (the query needs at least 3 characters)\<close>
  "QUERY_TOO_SHORT = [1047, 1072, 1087, 1088, 1086, 1089, 32, 1076, 1086, 1083, 1078, 1077, 1085,
     32, 1089, 1086, 1076, 1077, 1088, 1078, 1072, 1090, 1100, 32, 1084, 1080, 1085, 1080, 1084,
     1091, 1084, 32, 51, 32, 1089, 1080, 1084, 1074, 1086, 1083, 1072, 46]"

definition SUMMARY_UNAVAILABLE :: ustring where
  \<comment> \<open>"Kratkoe soderzhanie nedostupno" (summary unavailable)\<close>
  "SUMMARY_UNAVAILABLE = [1050, 1088, 1072, 1090, 1082, 1086, 1077, 32, 1089, 1086, 1076, 1077,
     1088, 1078, 1072, 1085, 1080, 1077, 32, 1085, 1077, 1076, 1086, 1089, 1090, 1091, 1087, 1085,
     1086]"

definition UNTITLED :: ustring where
  \<comment> \<open>"Bez nazvaniya" (untitled)\<close>
  "UNTITLED = [1041, 1077, 1079, 32, 1085, 1072, 1079, 1074, 1072, 1085, 1080, 1103]"

definition NO_SOURCES :: ustring where
  \<comment> \<open>"Istochniki ne naydeny" (no sources found)\<close>
  "NO_SOURCES = [1048, 1089, 1090, 1086, 1095, 1085, 1080, 1082, 1080, 32, 1085, 1077, 32, 1085,
     1072, 1081, 1076, 1077, 1085, 1099]"

section \<open>Values, dictionaries and the collaborators\<close>

text \<open>
  A raw result of the search provider is a Python dictionary of unspecified shape. The
  value under a key is modelled as \<open>None\<close>, a string or an integer: the values on which
  the truth tests, \<open>str(...)\<close>, the operator \<open>in\<close> and the string methods of the source
  differ. \<open>d.get(k)\<close> is \<open>None\<close> when the key is missing.

  The documents and the links are built by the source itself, from \<open>str(...)\<close>, slices and
  string literals, so their values are strings. An item of a list that is not a dictionary
  is \<open>NotADict\<close>.
\<close>

datatype pyval = PNone | PStr ustring | PInt int

type_synonym rawdict = "string \<rightharpoonup> pyval"

type_synonym pydict = "string \<rightharpoonup> ustring"

datatype 'd pyobj = NotADict | Dict 'd

definition raw_get :: "rawdict \<Rightarrow> string \<Rightarrow> pyval" where
  \<comment> \<open>\<open>d.get(k)\<close> on a raw result\<close>
  "raw_get d k = (case d k of None \<Rightarrow> PNone | Some v \<Rightarrow> v)"

definition raw_get_or :: "rawdict \<Rightarrow> string \<Rightarrow> pyval \<Rightarrow> pyval" where
  \<comment> \<open>\<open>d.get(k, default)\<close> on a raw result: the default is for a missing key only\<close>
  "raw_get_or d k dflt = (case d k of None \<Rightarrow> dflt | Some v \<Rightarrow> v)"

definition get_or :: "pydict \<Rightarrow> string \<Rightarrow> ustring \<Rightarrow> ustring" where
  \<comment> \<open>\<open>d.get(k, default)\<close> on a dictionary of strings\<close>
  "get_or d k dflt = (case d k of None \<Rightarrow> dflt | Some v \<Rightarrow> v)"

definition val_of :: "ustring option \<Rightarrow> pyval" where
  \<comment> \<open>\<open>d.get(k)\<close> on a dictionary of strings\<close>
  "val_of v = (case v of None \<Rightarrow> PNone | Some s \<Rightarrow> PStr s)"

definition truthy :: "pyval \<Rightarrow> bool" where
  \<comment> \<open>Python's truth value\<close>
  "truthy v \<longleftrightarrow> (case v of PNone \<Rightarrow> False | PStr s \<Rightarrow> s \<noteq> [] | PInt i \<Rightarrow> i \<noteq> 0)"

definition py_or :: "pyval \<Rightarrow> pyval \<Rightarrow> pyval" where
  \<comment> \<open>\<open>a or b\<close>\<close>
  "py_or a b = (if truthy a then a else b)"

fun digits :: "nat \<Rightarrow> ustring" where
  "digits n = (if n < 10 then [48 + n] else digits (n div 10) @ [48 + n mod 10])"

declare digits.simps [simp del]

definition py_str :: "pyval \<Rightarrow> ustring" where
  \<comment> \<open>\<open>str(v)\<close>\<close>
  "py_str v =
     (case v of
        PNone \<Rightarrow> asc ''None''
      | PStr s \<Rightarrow> s
      | PInt i \<Rightarrow> if i < 0 then HYPHEN # digits (nat (- i)) else digits (nat i))"

datatype pyexc = PyException | TypeError

text \<open>
  The search provider \<open>DDGS().text(query, max_results)\<close> and the summarization pipeline
  \<open>summarizer(text, max_length, min_length, do_sample)\<close> are parameters of the model: each
  either raises or returns. Every call made to them is recorded, in order, and so is every
  run of a node of the workflow graph.
\<close>

type_synonym provider = "ustring \<Rightarrow> int \<Rightarrow> pyexc + rawdict pyobj list"

type_synonym summarizer_fn = "ustring \<Rightarrow> int \<Rightarrow> int \<Rightarrow> bool \<Rightarrow> pyexc + pydict list"

datatype call = ProviderCall ustring int | SummarizerCall ustring int int bool | NodeCall string

record research_agent =
  summarizer :: "summarizer_fn option"

definition init_model :: "pyexc + summarizer_fn \<Rightarrow> summarizer_fn option" where
  \<comment> \<open>\<open>_init_model\<close>: the pipeline constructor raised, or gave a model\<close>
  "init_model loaded = (case loaded of Inl e \<Rightarrow> None | Inr model \<Rightarrow> Some model)"

definition new_agent :: "pyexc + summarizer_fn \<Rightarrow> research_agent" where
  \<comment> \<open>\<open>ResearchAgent.__init__\<close>\<close>
  "new_agent loaded = \<lparr>summarizer = init_model loaded\<rparr>"

section \<open>The Retriever\<close>

definition source_of :: "pyval \<Rightarrow> pyexc + ustring" where
  \<comment> \<open>the expression assigned to \<open>source\<close> in \<open>_clean_search_results\<close>; on a title that is
      not a string, \<open>'...' in title\<close> raises TypeError\<close>
  "source_of title =
     (case title of
        PStr t \<Rightarrow>
          Inr (if EM_DASH \<in> set t then strip (last (split_on EM_DASH t))
               else strip (last (split_on HYPHEN t)))
      | PNone \<Rightarrow> Inl TypeError
      | PInt i \<Rightarrow> Inl TypeError)"

definition resolve_url :: "rawdict \<Rightarrow> pyval" where
  \<comment> \<open>\<open>result.get('href') or result.get('url') or ''\<close>\<close>
  "resolve_url result =
     py_or (py_or (raw_get result ''href'') (raw_get result ''url'')) (PStr [])"

definition resolve_content :: "rawdict \<Rightarrow> pyval" where
  \<comment> \<open>\<open>result.get('body') or result.get('description') or result.get('content', '')\<close>\<close>
  "resolve_content result =
     py_or (py_or (raw_get result ''body'') (raw_get result ''description''))
       (raw_get_or result ''content'' (PStr []))"

definition document :: "pyval \<Rightarrow> pyval \<Rightarrow> pyval \<Rightarrow> ustring \<Rightarrow> pydict" where
  \<comment> \<open>the dictionary appended to \<open>cleaned\<close>\<close>
  "document title content url source =
     [''title'' \<mapsto> take 200 (py_str title), ''content'' \<mapsto> take 500 (py_str content),
      ''url'' \<mapsto> py_str url, ''source'' \<mapsto> take 100 source]"

text \<open>
  The loop of \<open>_clean_search_results\<close>, with its two variables \<open>seen_urls\<close> and \<open>cleaned\<close>.
  \<open>seen_urls\<close> holds the urls as they were resolved, before \<open>str(...)\<close>.
\<close>

fun clean_loop ::
  "pyval set \<Rightarrow> pydict list \<Rightarrow> rawdict pyobj list \<Rightarrow> pyexc + pyval set \<times> pydict list" where
  "clean_loop seen_urls cleaned [] = Inr (seen_urls, cleaned)"
| "clean_loop seen_urls cleaned (NotADict # results) = clean_loop seen_urls cleaned results"
| "clean_loop seen_urls cleaned (Dict result # results) =
     (let url = resolve_url result;
          title = raw_get_or result ''title'' (PStr []);
          content = resolve_content result
      in if \<not> truthy url \<or> \<not> truthy title \<or> url \<in> seen_urls
         then clean_loop seen_urls cleaned results
         else (case source_of title of
                 Inl e \<Rightarrow> Inl e
               | Inr source \<Rightarrow>
                   clean_loop (insert url seen_urls)
                     (cleaned @ [document title content url source]) results))"

definition clean_search_results :: "rawdict pyobj list \<Rightarrow> pyexc + pydict list" where
  \<comment> \<open>\<open>ResearchAgent._clean_search_results\<close>\<close>
  "clean_search_results results =
     (case clean_loop {} [] results of
        Inl e \<Rightarrow> Inl e
      | Inr (seen_urls, cleaned) \<Rightarrow> Inr (take 5 cleaned))"

definition search :: "provider \<Rightarrow> ustring \<Rightarrow> pydict list \<times> call list" where
  \<comment> \<open>\<open>ResearchAgent.search\<close>; the \<open>except\<close> clause turns a raise of the provider, or of
      the cleaning, into \<open>[]\<close>\<close>
  "search ddgs query =
     (if query = [] \<or> length (strip query) < 3 then ([], [])
      else (case ddgs query 10 of
              Inl e \<Rightarrow> ([], [ProviderCall query 10])
            | Inr results \<Rightarrow>
                (case clean_search_results results of
                   Inl e \<Rightarrow> ([], [ProviderCall query 10])
                 | Inr cleaned \<Rightarrow> (cleaned, [ProviderCall query 10]))))"

section \<open>The Synthesizer\<close>

definition max_len :: "int \<Rightarrow> int" where
  "max_len word_count = min 130 (max 30 (word_count div 2))"

definition min_len :: "int \<Rightarrow> int" where
  "min_len word_count = min 30 (max_len word_count div 2)"

definition summary_text :: "pydict list \<Rightarrow> ustring" where
  \<comment> \<open>\<open>result[0]["summary_text"] if result else ...\<close>; a missing key raises inside the
      \<open>try\<close> and is caught by its \<open>except\<close>\<close>
  "summary_text result =
     (case result of
        [] \<Rightarrow> NO_SUMMARY
      | r # _ \<Rightarrow> (case r ''summary_text'' of None \<Rightarrow> SUMMARY_ERROR | Some s \<Rightarrow> s))"

definition summarize :: "research_agent \<Rightarrow> ustring \<Rightarrow> ustring \<times> call list" where
  \<comment> \<open>\<open>ResearchAgent.summarize\<close>; inside the \<open>try\<close>, calling a summarizer that is \<open>None\<close>
      would raise and be caught like a raise of the model\<close>
  "summarize self text0 =
     (if text0 = [] \<or> summarizer self = None then (NO_DATA, [])
      else
        let text = strip text0 in
        if length (split_ws text) < 10 then (text, [])
        else
          let word_count = int (length (split_ws text));
              mx = max_len word_count;
              mn = min_len word_count
          in (case summarizer self of
                None \<Rightarrow> (SUMMARY_ERROR, [])
              | Some model \<Rightarrow>
                  (case model text mx mn False of
                     Inl e \<Rightarrow> SUMMARY_ERROR
                   | Inr result \<Rightarrow> summary_text result,
                   [SummarizerCall text mx mn False])))"

definition link_of :: "pydict \<Rightarrow> pydict" where
  \<comment> \<open>the dictionary appended to \<open>valid_links\<close> in \<open>summarize_node\<close>\<close>
  "link_of result =
     [''title'' \<mapsto> strip (hd (split_on EM_DASH (get_or result ''title'' LINK_TITLE))),
      ''url'' \<mapsto> get_or result ''url'' (asc ''#''),
      ''source'' \<mapsto> get_or result ''source'' UNKNOWN_SOURCE]"

fun node_loop ::
  "ustring \<Rightarrow> pydict list \<Rightarrow> pydict pyobj list \<Rightarrow> ustring \<times> pydict list" where
  "node_loop combined_text valid_links [] = (combined_text, valid_links)"
| "node_loop combined_text valid_links (NotADict # results) =
     node_loop combined_text valid_links results"
| "node_loop combined_text valid_links (Dict result # results) =
     (let text = get_or result ''title'' [] @ [10] @ get_or result ''content'' []
      in node_loop (combined_text @ [10, 10] @ text) (valid_links @ [link_of result]) results)"

text \<open>
  \<open>ResearchState\<close> is a dictionary with the keys \<open>query\<close>, \<open>results\<close>, \<open>summary\<close> and
  \<open>links\<close>, each of which may be missing. A node returns the keys it sets; the graph
  runner of the workflow library writes them over the state and runs the nodes along the
  edges, here \<open>search\<close> and then \<open>summarize\<close>.
\<close>

record research_state =
  st_query :: "ustring option"
  st_results :: "pydict pyobj list option"
  st_summary :: "ustring option"
  st_links :: "pydict list option"

definition no_keys :: research_state where
  "no_keys = \<lparr>st_query = None, st_results = None, st_summary = None, st_links = None\<rparr>"

definition or_old :: "'a option \<Rightarrow> 'a option \<Rightarrow> 'a option" where
  "or_old new old = (case new of None \<Rightarrow> old | Some v \<Rightarrow> Some v)"

definition merge_state :: "research_state \<Rightarrow> research_state \<Rightarrow> research_state" where
  "merge_state old upd =
     \<lparr>st_query = or_old (st_query upd) (st_query old),
      st_results = or_old (st_results upd) (st_results old),
      st_summary = or_old (st_summary upd) (st_summary old),
      st_links = or_old (st_links upd) (st_links old)\<rparr>"

definition search_node :: "provider \<Rightarrow> research_state \<Rightarrow> research_state \<times> call list" where
  "search_node ddgs state =
     (let query = strip (case st_query state of None \<Rightarrow> [] | Some q \<Rightarrow> q);
          (results, calls) = search ddgs query
      in (no_keys\<lparr>st_results := Some (map Dict results)\<rparr>, calls))"

definition summarize_node ::
  "research_agent \<Rightarrow> research_state \<Rightarrow> research_state \<times> call list" where
  "summarize_node agent state =
     (let results = (case st_results state of None \<Rightarrow> [] | Some rs \<Rightarrow> rs)
      in if results = []
         then (no_keys\<lparr>st_summary := Some NO_RESULTS_FOUND, st_links := Some []\<rparr>, [])
         else
           let (combined_text, valid_links) = node_loop [] [] (take 5 results);
               (summary, calls) = summarize agent (strip combined_text)
           in (no_keys\<lparr>st_summary := Some (if summary \<noteq> [] then summary else NO_RESULTS),
                         st_links := Some (take 5 valid_links)\<rparr>, calls))"

definition app_invoke ::
  "research_agent \<Rightarrow> provider \<Rightarrow> research_state \<Rightarrow> research_state \<times> call list" where
  \<comment> \<open>\<open>app.invoke\<close>: the entry point \<open>search\<close>, then its edge to \<open>summarize\<close>\<close>
  "app_invoke agent ddgs input =
     (let (upd1, calls1) = search_node ddgs input;
          state1 = merge_state input upd1;
          (upd2, calls2) = summarize_node agent state1
      in (merge_state state1 upd2,
          [NodeCall ''search''] @ calls1 @ [NodeCall ''summarize''] @ calls2))"

section \<open>The entry point\<close>

text \<open>
  The body of \<open>run_agent\<close> is inside a \<open>try\<close>. Both stages catch the failures of their
  collaborators and the rendering reads \<open>link['url']\<close> only after testing it, so on the
  inputs modelled here nothing raises inside it; the \<open>except\<close> branch, which answers a
  failure of the graph library itself, has no counterpart below.
\<close>

definition fragment :: "ustring \<Rightarrow> ustring \<Rightarrow> ustring \<Rightarrow> ustring" where
  \<comment> \<open>the f-string appended to \<open>formatted_links\<close>\<close>
  \<open>fragment url title source =
     asc ''<div style="margin-bottom: 8px;">'' @
     asc ''<a href="'' @ url @
     asc ''" target="_blank" style="text-decoration: none; color: #1E90FF; font-weight: bold;">'' @
     title @ asc ''</a> '' @ [EM_DASH] @ asc '' <span style="color: #555;">'' @ source @
     asc ''</span>'' @ asc ''</div>''\<close>

definition format_link :: "pydict \<Rightarrow> ustring" where
  \<comment> \<open>the body of the rendering loop, for a link whose \<open>url\<close> is present and not empty\<close>
  "format_link link =
     (let title = get_or link ''title'' UNTITLED;
          source = get_or link ''source'' UNKNOWN_SOURCE;
          url = get_or link ''url'' []
      in fragment url title source)"

fun format_loop :: "ustring list \<Rightarrow> pydict list \<Rightarrow> ustring list" where
  "format_loop formatted_links [] = formatted_links"
| "format_loop formatted_links (link # links) =
     (if truthy (val_of (link ''url''))
      then format_loop (formatted_links @ [format_link link]) links
      else format_loop formatted_links links)"

definition run_agent ::
  "research_agent \<Rightarrow> provider \<Rightarrow> ustring \<Rightarrow> (ustring \<times> ustring) \<times> call list" where
  \<comment> \<open>\<open>run_agent\<close>: the pair (summary, links markup), and the calls made on the way\<close>
  "run_agent agent ddgs query =
     (if query = [] \<or> length (strip query) < 3 then ((QUERY_TOO_SHORT, []), [])
      else
        let (output, calls) = app_invoke agent ddgs (no_keys\<lparr>st_query := Some (strip query)\<rparr>);
            summary = (case st_summary output of None \<Rightarrow> SUMMARY_UNAVAILABLE | Some s \<Rightarrow> s);
            links = take 5 (case st_links output of None \<Rightarrow> [] | Some ls \<Rightarrow> ls);
            formatted_links = format_loop [] links
        in ((summary, if formatted_links = [] then NO_SOURCES else concat formatted_links),
            calls))"

section \<open>Notions used in the statements\<close>

definition valid :: "rawdict \<Rightarrow> bool" where
  \<comment> \<open>a raw result whose url and title are both true values\<close>
  "valid r \<longleftrightarrow> truthy (resolve_url r) \<and> truthy (raw_get_or r ''title'' (PStr []))"

definition accepts :: "pyval set \<Rightarrow> rawdict \<Rightarrow> bool" where
  \<comment> \<open>the negation of the test before \<open>continue\<close> in the cleaning loop\<close>
  "accepts seen r \<longleftrightarrow>
     \<not> (\<not> truthy (resolve_url r) \<or> \<not> truthy (raw_get_or r ''title'' (PStr [])) \<or>
        resolve_url r \<in> seen)"

definition str_title :: "rawdict \<Rightarrow> bool" where
  \<comment> \<open>the title of the raw result is a string\<close>
  "str_title r \<longleftrightarrow>
     (case raw_get_or r ''title'' (PStr []) of PStr t \<Rightarrow> True | PNone \<Rightarrow> False | PInt i \<Rightarrow> False)"

definition normalize :: "rawdict \<Rightarrow> pydict" where
  \<comment> \<open>the document that the body of the cleaning loop builds from a raw result whose
      title is a string\<close>
  "normalize r =
     document (raw_get_or r ''title'' (PStr [])) (resolve_content r) (resolve_url r)
       (case source_of (raw_get_or r ''title'' (PStr [])) of Inl e \<Rightarrow> [] | Inr source \<Rightarrow> source)"

fun dicts_of :: "'d pyobj list \<Rightarrow> 'd list" where
  \<comment> \<open>the items of a list that pass \<open>isinstance(item, dict)\<close>, in order\<close>
  "dicts_of [] = []"
| "dicts_of (NotADict # xs) = dicts_of xs"
| "dicts_of (Dict d # xs) = d # dicts_of xs"

function keep_first :: "('a \<Rightarrow> 'k) \<Rightarrow> 'a list \<Rightarrow> 'a list" where
  \<comment> \<open>first occurrence wins: of the items with the same key, the first one is kept\<close>
  "keep_first key [] = []"
| "keep_first key (x # xs) = x # keep_first key (filter (\<lambda>y. key y \<noteq> key x) xs)"
  by pat_completeness auto
termination
  by (relation "measure (\<lambda>(key, xs). length xs)") (auto simp: less_Suc_eq_le)

definition accepted :: "rawdict pyobj list \<Rightarrow> rawdict list" where
  \<comment> \<open>the accepted raw results of a batch, in provider-return order: the records with a
      url and a title, the first of each url\<close>
  "accepted rs = keep_first resolve_url (filter valid (dicts_of rs))"

definition fresh :: "pyval set \<Rightarrow> rawdict pyobj list \<Rightarrow> rawdict list" where
  \<comment> \<open>the raw results that the loop will accept, given the urls it has seen\<close>
  "fresh seen rs =
     keep_first resolve_url (filter (\<lambda>r. valid r \<and> resolve_url r \<notin> seen) (dicts_of rs))"

definition text_after_last :: "nat \<Rightarrow> ustring \<Rightarrow> ustring" where
  \<comment> \<open>the text after the last occurrence of \<open>sep\<close>; the whole text when there is none\<close>
  "text_after_last sep s = rev (takeWhile (\<lambda>c. c \<noteq> sep) (rev s))"

definition text_before_first :: "nat \<Rightarrow> ustring \<Rightarrow> ustring" where
  \<comment> \<open>the text before the first occurrence of \<open>sep\<close>; the whole text when there is none\<close>
  "text_before_first sep s = takeWhile (\<lambda>c. c \<noteq> sep) s"

fun spec_first_present :: "rawdict \<Rightarrow> string list \<Rightarrow> pyval" where
  \<comment> \<open>the words of the specification: the value of the first alias that is present,
      whatever it is; the empty string when no alias is present\<close>
  "spec_first_present r [] = PStr []"
| "spec_first_present r (k # ks) =
     (case r k of Some v \<Rightarrow> v | None \<Rightarrow> spec_first_present r ks)"

fun first_truthy :: "rawdict \<Rightarrow> string list \<Rightarrow> pyval \<Rightarrow> pyval" where
  \<comment> \<open>the first value under the aliases that is a true value (present, not \<open>None\<close>, not
      empty, not zero); the default when there is none\<close>
  "first_truthy r [] dflt = dflt"
| "first_truthy r (k # ks) dflt =
     (case r k of
        Some v \<Rightarrow> if truthy v then v else first_truthy r ks dflt
      | None \<Rightarrow> first_truthy r ks dflt)"


section \<open>Concrete inputs\<close>

text \<open>Texts, raw results and collaborators at which the theorems below are instantiated.\<close>

definition words_of :: "nat \<Rightarrow> ustring" where
  "words_of n = concat (replicate n (asc ''w ''))"

definition five_words :: ustring where
  "five_words = asc '' one two three four five ''"

definition em_dash_result :: rawdict where
  "em_dash_result = [''href'' \<mapsto> PStr (asc ''http://a''),
     ''title'' \<mapsto> PStr (asc ''A '' @ [EM_DASH] @ asc '' B''), ''body'' \<mapsto> PStr (asc ''first'')]"

definition hyphen_result :: rawdict where
  "hyphen_result = [''url'' \<mapsto> PStr (asc ''http://b''), ''title'' \<mapsto> PStr (asc ''A - B''),
     ''description'' \<mapsto> PStr (asc ''second'')]"

definition plain_result :: rawdict where
  "plain_result = [''href'' \<mapsto> PStr (asc ''http://c''), ''title'' \<mapsto> PStr (asc ''Plain'')]"

definition empty_href_result :: rawdict where
  "empty_href_result = [''href'' \<mapsto> PStr [], ''url'' \<mapsto> PStr (asc ''http://d''),
     ''title'' \<mapsto> PStr (asc ''T'')]"

definition no_url_result :: rawdict where
  "no_url_result = [''title'' \<mapsto> PStr (asc ''No address''), ''body'' \<mapsto> PStr (asc ''text'')]"

definition untitled_result :: rawdict where
  "untitled_result = [''href'' \<mapsto> PStr (asc ''http://a''), ''body'' \<mapsto> PStr (asc ''no title'')]"

definition int_url_result :: rawdict where
  "int_url_result = [''href'' \<mapsto> PInt 1, ''title'' \<mapsto> PStr (asc ''a'')]"

definition str_url_result :: rawdict where
  "str_url_result = [''href'' \<mapsto> PStr (asc ''1''), ''title'' \<mapsto> PStr (asc ''b'')]"

definition none_content_result :: rawdict where
  "none_content_result = [''href'' \<mapsto> PStr (asc ''http://e''), ''title'' \<mapsto> PStr (asc ''N''),
     ''content'' \<mapsto> PNone]"

definition int_title_result :: rawdict where
  "int_title_result = [''href'' \<mapsto> PStr (asc ''http://f''), ''title'' \<mapsto> PInt 7]"

definition mixed_batch :: "rawdict pyobj list" where
  "mixed_batch = [Dict em_dash_result, NotADict, Dict em_dash_result, Dict no_url_result,
     Dict untitled_result, Dict hyphen_result]"

definition raising_model :: summarizer_fn where
  "raising_model text mx mn do_sample = Inl PyException"

definition echo_model :: summarizer_fn where
  "echo_model text mx mn do_sample = Inr [[''summary_text'' \<mapsto> take (nat mx) text]]"

definition failing_provider :: provider where
  "failing_provider query max_results = Inl PyException"



section \<open>Properties of the string operations\<close>

lemma words_acc_all_space:
  "\<forall>c\<in>set ws. isspace c \<Longrightarrow> words_acc cur ws = (if cur = [] then [] else [cur])"
  by (induction ws arbitrary: cur) auto

lemma words_acc_append_space:
  "\<forall>c\<in>set ws. isspace c \<Longrightarrow> words_acc cur (s @ ws) = words_acc cur s"
  by (induction s arbitrary: cur) (auto simp: words_acc_all_space)

lemma words_acc_dropWhile: "words_acc [] (dropWhile isspace s) = words_acc [] s"
  by (induction s) auto

lemma rev_dropWhile_takeWhile:
  "xs = rev (dropWhile P (rev xs)) @ rev (takeWhile P (rev xs))"
proof -
  have "rev (rev xs) = rev (takeWhile P (rev xs) @ dropWhile P (rev xs))"
    by (simp only: takeWhile_dropWhile_id)
  then show ?thesis by (simp only: rev_rev_ident rev_append)
qed

lemma strip_decomp:
  "dropWhile isspace s = strip s @ rev (takeWhile isspace (rev (dropWhile isspace s)))"
  unfolding strip_def by (rule rev_dropWhile_takeWhile)

text \<open>Trimming a text does not change its words, so the word count of \<open>summarize\<close> is
  that of the text it was given.\<close>

lemma split_ws_strip: "split_ws (strip s) = split_ws s"
proof -
  have sp: "\<forall>c\<in>set (rev (takeWhile isspace (rev (dropWhile isspace s)))). isspace c"
    by (auto dest: set_takeWhileD)
  have "words_acc [] s = words_acc [] (dropWhile isspace s)"
    by (simp add: words_acc_dropWhile)
  also have "\<dots> = words_acc [] (strip s @ rev (takeWhile isspace (rev (dropWhile isspace s))))"
    using strip_decomp [of s] by simp
  also have "\<dots> = words_acc [] (strip s)"
    using sp by (rule words_acc_append_space)
  finally show ?thesis by (simp add: split_ws_def)
qed

lemma split_ws_Nil: "split_ws [] = []"
  by (simp add: split_ws_def)

section \<open>The adaptive length bounds\<close>

text \<open>
  C10. For every word count \<open>W \<ge> 10\<close>, the lower bound \<open>min_len = min(30, max_len // 2)\<close>
  lies between 15 and 30 inclusive and never exceeds \<open>max_len\<close>; for every \<open>W\<close> with
  \<open>10 \<le> W \<le> 60\<close>, \<open>max_len\<close> is 30 and \<open>min_len\<close> is 15, strictly below 30, so the lower
  bound is not always 30.
\<close>

theorem min_len_range:
  "10 \<le> W \<Longrightarrow>
     15 \<le> min_len W \<and> min_len W \<le> 30 \<and> min_len W \<le> max_len W \<and>
     (W \<le> 60 \<longrightarrow> max_len W = 30 \<and> min_len W = 15 \<and> min_len W < 30)"
  by (auto simp: min_len_def max_len_def)

theorem min_len_range_witness:
  "(10::int) \<le> 40 \<and> 15 \<le> min_len 40 \<and> min_len 40 \<le> 30 \<and> min_len 40 \<le> max_len 40 \<and>
   (40::int) \<le> 60 \<and> max_len 40 = 30 \<and> min_len 40 = 15 \<and> min_len 40 < 30"
proof -
  have h: "(10::int) \<le> 40" by simp
  show ?thesis using min_len_range [OF h] by simp
qed

lemma words_of_count: "length (split_ws (words_of n)) = n"
  unfolding split_ws_def words_of_def
  by (induction n) (simp_all add: isspace_def asc_def)

lemma summarize_call:
  assumes "summarizer self = Some model" and "10 \<le> length (split_ws text)"
  shows "summarize self text =
     (case model (strip text) (max_len (int (length (split_ws text))))
             (min_len (int (length (split_ws text)))) False of
        Inl e \<Rightarrow> SUMMARY_ERROR | Inr result \<Rightarrow> summary_text result,
      [SummarizerCall (strip text) (max_len (int (length (split_ws text))))
             (min_len (int (length (split_ws text)))) False])"
proof -
  from assms(2) have "text \<noteq> []" by (auto simp: split_ws_Nil)
  with assms show ?thesis
    by (simp add: summarize_def split_ws_strip Let_def)
qed

text \<open>
  C2 as stated: for every aggregate text of at least 10 words, \<open>summarize\<close> computes the
  two bounds and passes them to the summarization call. The first test of \<open>summarize\<close> is
  on the summarizer: when the model failed to load, a text of 300 words gives the "no data
  to summarize" marker and no call is made, so no bounds are passed.
\<close>

theorem no_model_no_bounds_counterexample:
  "10 \<le> length (split_ws (words_of 300)) \<and>
   summarize (new_agent (Inl PyException)) (words_of 300) = (NO_DATA, [])"
  by (simp add: words_of_count summarize_def new_agent_def init_model_def)

text \<open>
  C2, amended. For every aggregate text whose whitespace-delimited word count \<open>W\<close> is at
  least 10, when the summarizer is initialized, \<open>summarize\<close> computes
  \<open>max_len = clamp(W // 2, 30, 130)\<close> and \<open>min_len = min(30, max_len // 2)\<close>, makes exactly
  one summarization call, on the trimmed text, with exactly these two values as the length
  constraints and without sampling, and returns what that call gives (its summary text, or
  a fixed marker when it raises or gives nothing); for \<open>W = 300\<close> the bounds satisfy
  \<open>30 \<le> min_len \<le> max_len \<le> 130\<close>.
\<close>

theorem summarize_length_bounds:
  assumes "summarizer self = Some model" and "10 \<le> length (split_ws text)"
  shows "let W = int (length (split_ws text));
             mx = (if W div 2 < 30 then 30 else if 130 < W div 2 then 130 else W div 2);
             mn = (if mx div 2 < 30 then mx div 2 else 30)
         in summarize self text =
              (case model (strip text) mx mn False of
                 Inl e \<Rightarrow> SUMMARY_ERROR
               | Inr result \<Rightarrow> summary_text result,
               [SummarizerCall (strip text) mx mn False]) \<and>
            (W = 300 \<longrightarrow> 30 \<le> mn \<and> mn \<le> mx \<and> mx \<le> 130)"
proof -
  let ?W = "int (length (split_ws text))"
  have mx: "max_len ?W = (if ?W div 2 < 30 then 30 else if 130 < ?W div 2 then 130 else ?W div 2)"
    by (simp add: max_len_def)
  have mn: "min_len ?W = (if max_len ?W div 2 < 30 then max_len ?W div 2 else 30)"
    by (simp add: min_len_def)
  have b: "?W = 300 \<longrightarrow> 30 \<le> min_len ?W \<and> min_len ?W \<le> max_len ?W \<and> max_len ?W \<le> 130"
    by (simp add: min_len_def max_len_def)
  show ?thesis
    unfolding Let_def mx [symmetric] mn [symmetric]
    using summarize_call [OF assms] b by blast
qed

theorem summarize_length_bounds_witness:
  "summarize \<lparr>summarizer = Some echo_model\<rparr> (words_of 300) =
     (take 130 (strip (words_of 300)), [SummarizerCall (strip (words_of 300)) 130 30 False])"
proof -
  have h1: "summarizer \<lparr>summarizer = Some echo_model\<rparr> = Some echo_model" by simp
  have h2: "10 \<le> length (split_ws (words_of 300))" by (simp add: words_of_count)
  from summarize_length_bounds [OF h1 h2] show ?thesis
    by (simp add: words_of_count Let_def echo_model_def summary_text_def)
qed

section \<open>Short texts\<close>

lemma five_words_count: "length (split_ws five_words) = 5"
  by (simp add: five_words_def asc_def split_ws_def isspace_def)

lemma strip_five_words: "strip five_words = asc ''one two three four five''"
  by (simp add: five_words_def asc_def strip_def isspace_def)

lemma five_words_not_empty: "five_words \<noteq> []"
  by (simp add: five_words_def asc_def)

text \<open>
  C3 as stated: for every non-empty aggregate text of fewer than 10 words, \<open>summarize\<close>
  returns the trimmed text verbatim, regardless of any other condition. The first test of
  \<open>summarize\<close> is on the summarizer: when the model failed to load, a text of five words
  gives the "no data to summarize" marker, not the text.
\<close>

theorem short_text_unavailable_counterexample:
  "five_words \<noteq> [] \<and> length (split_ws five_words) < 10 \<and>
   fst (summarize (new_agent (Inl PyException)) five_words) \<noteq> strip five_words \<and>
   fst (summarize (new_agent (Inl PyException)) five_words) = NO_DATA"
  by (simp add: five_words_count five_words_not_empty strip_five_words summarize_def new_agent_def
      init_model_def NO_DATA_def asc_def)

text \<open>
  C3, amended. For every non-empty aggregate text whose word count is strictly below 10,
  \<open>summarize\<close> never invokes the summarization capability; it returns the trimmed text
  verbatim when the summarizer is initialized, and the fixed "no data to summarize" marker
  when it is not.
\<close>

theorem short_text_verbatim:
  assumes "text \<noteq> []" and "length (split_ws text) < 10"
  shows "snd (summarize self text) = [] \<and>
         (summarizer self \<noteq> None \<longrightarrow> fst (summarize self text) = strip text) \<and>
         (summarizer self = None \<longrightarrow> fst (summarize self text) = NO_DATA)"
  using assms by (auto simp: summarize_def split_ws_strip Let_def split: option.splits)

theorem short_text_verbatim_witness:
  "snd (summarize (new_agent (Inr echo_model)) five_words) = [] \<and>
   fst (summarize (new_agent (Inr echo_model)) five_words) = asc ''one two three four five'' \<and>
   snd (summarize (new_agent (Inl PyException)) five_words) = [] \<and>
   fst (summarize (new_agent (Inl PyException)) five_words) = NO_DATA"
proof -
  have h2: "length (split_ws five_words) < 10" by (simp add: five_words_count)
  have a: "summarizer (new_agent (Inr echo_model)) \<noteq> None"
    by (simp add: new_agent_def init_model_def)
  have b: "summarizer (new_agent (Inl PyException)) = None"
    by (simp add: new_agent_def init_model_def)
  from short_text_verbatim [OF five_words_not_empty h2, of "new_agent (Inr echo_model)"]
       short_text_verbatim [OF five_words_not_empty h2, of "new_agent (Inl PyException)"] a b
  show ?thesis by (simp add: strip_five_words)
qed

section \<open>Failures of the collaborators\<close>

lemma markers_distinct: "NO_DATA \<noteq> SUMMARY_ERROR"
  by (simp add: NO_DATA_def SUMMARY_ERROR_def)

text \<open>
  C8. Neither stage raises to its caller: \<open>search\<close> and \<open>summarize\<close> return a list and a
  string on every input, every raise of a collaborator being inside a \<open>try\<close>. A failure of
  the provider call makes \<open>search\<close> return the empty list; \<open>summarize\<close> returns the fixed
  "no data to summarize" marker when the summarizer failed to initialize, and the distinct
  fixed "error producing summary" marker when the summarization call itself raises.
\<close>

theorem stages_never_raise:
  "(ddgs query 10 = Inl e \<longrightarrow> fst (search ddgs query) = []) \<and>
   fst (summarize (new_agent (Inl e')) text) = NO_DATA \<and>
   (summarizer self = Some model \<and> 10 \<le> length (split_ws text) \<and>
    model (strip text) (max_len (int (length (split_ws text))))
      (min_len (int (length (split_ws text)))) False = Inl e''
      \<longrightarrow> fst (summarize self text) = SUMMARY_ERROR) \<and>
   NO_DATA \<noteq> SUMMARY_ERROR"
proof -
  have a: "ddgs query 10 = Inl e \<longrightarrow> fst (search ddgs query) = []"
    by (simp add: search_def)
  have b: "fst (summarize (new_agent (Inl e')) text) = NO_DATA"
    by (simp add: summarize_def new_agent_def init_model_def)
  have c: "summarizer self = Some model \<and> 10 \<le> length (split_ws text) \<and>
    model (strip text) (max_len (int (length (split_ws text))))
      (min_len (int (length (split_ws text)))) False = Inl e''
      \<longrightarrow> fst (summarize self text) = SUMMARY_ERROR"
  proof (intro impI, elim conjE)
    assume h: "summarizer self = Some model" "10 \<le> length (split_ws text)"
      and r: "model (strip text) (max_len (int (length (split_ws text))))
      (min_len (int (length (split_ws text)))) False = Inl e''"
    show "fst (summarize self text) = SUMMARY_ERROR"
      using summarize_call [OF h] r by simp
  qed
  from a b c markers_distinct show ?thesis by blast
qed

theorem stages_never_raise_witness:
  "fst (search failing_provider (asc ''test topic'')) = [] \<and>
   snd (search failing_provider (asc ''test topic'')) = [ProviderCall (asc ''test topic'') 10] \<and>
   fst (summarize (new_agent (Inr raising_model)) (words_of 12)) = SUMMARY_ERROR"
proof -
  have p: "failing_provider (asc ''test topic'') 10 = Inl PyException"
    by (simp add: failing_provider_def)
  have s: "summarizer (new_agent (Inr raising_model)) = Some raising_model"
    by (simp add: new_agent_def init_model_def)
  have w: "10 \<le> length (split_ws (words_of 12))" by (simp add: words_of_count)
  have r: "raising_model (strip (words_of 12)) (max_len (int (length (split_ws (words_of 12)))))
      (min_len (int (length (split_ws (words_of 12))))) False = Inl PyException"
    by (simp add: raising_model_def)
  have c: "snd (search failing_provider (asc ''test topic'')) = [ProviderCall (asc ''test topic'') 10]"
    by (simp add: search_def failing_provider_def asc_def strip_def isspace_def)
  from stages_never_raise [of failing_provider "asc ''test topic''" PyException PyException
      "words_of 12" "new_agent (Inr raising_model)" raising_model PyException] p s w r c
  show ?thesis by blast
qed

section \<open>Validation of the query\<close>

lemma long_query_invokes:
  "\<not> (query = [] \<or> length (strip query) < 3) \<Longrightarrow>
     NodeCall ''search'' \<in> set (snd (run_agent agent ddgs query)) \<and>
     NodeCall ''summarize'' \<in> set (snd (run_agent agent ddgs query))"
  by (auto simp: run_agent_def app_invoke_def Let_def split: prod.splits)

text \<open>
  C7. For every query that is empty or shorter than 3 characters after trimming, \<open>search\<close>
  returns the empty list without contacting the provider, and \<open>run_agent\<close> returns the fixed
  validation message with empty links markup, without running a node of the graph or
  calling a collaborator.
\<close>

theorem short_query_rejected:
  "query = [] \<or> length (strip query) < 3 \<Longrightarrow>
     search ddgs query = ([], []) \<and> run_agent agent ddgs query = ((QUERY_TOO_SHORT, []), [])"
  by (simp add: search_def run_agent_def)

theorem short_query_rejected_witness:
  "search failing_provider (asc '' ab '') = ([], []) \<and>
   run_agent (new_agent (Inr echo_model)) failing_provider (asc '' ab '') = ((QUERY_TOO_SHORT, []), [])"
proof -
  have h: "asc '' ab '' = [] \<or> length (strip (asc '' ab '')) < 3"
    by (simp add: asc_def strip_def isspace_def)
  from short_query_rejected [OF h] show ?thesis by simp
qed

section \<open>The cleaning loop\<close>

lemma keep_first_subseq: "subseq (keep_first key xs) xs"
proof (induction key xs rule: keep_first.induct)
  case (1 key)
  show ?case by simp
next
  case (2 key x xs)
  have "subseq (filter (\<lambda>y. key y \<noteq> key x) xs) xs" by simp
  with 2 have "subseq (keep_first key (filter (\<lambda>y. key y \<noteq> key x) xs)) xs"
    by (rule subseq_order.trans)
  then show ?case by simp
qed


lemma keep_first_keys: "key ` set (keep_first key xs) = key ` set xs"
proof (induction key xs rule: keep_first.induct)
  case (1 key)
  show ?case by simp
next
  case (2 key x xs)
  then show ?case by auto
qed

lemma keep_first_distinct: "distinct (map key (keep_first key xs))"
proof (induction key xs rule: keep_first.induct)
  case (1 key)
  show ?case by simp
next
  case (2 key x xs)
  have "key x \<notin> key ` set (filter (\<lambda>y. key y \<noteq> key x) xs)" by auto
  then have "key x \<notin> key ` set (keep_first key (filter (\<lambda>y. key y \<noteq> key x) xs))"
    by (simp add: keep_first_keys)
  with 2 show ?case by simp
qed

lemma dicts_of_subseq: "subseq (map Dict (dicts_of rs)) rs"
proof (induction rs)
  case Nil
  show ?case by simp
next
  case (Cons x rs)
  then show ?case by (cases x) (auto intro: list_emb_Cons)
qed

lemma accepted_subseq: "subseq (map Dict (accepted rs)) rs"
proof -
  have "subseq (accepted rs) (filter valid (dicts_of rs))"
    unfolding accepted_def by (rule keep_first_subseq)
  moreover have "subseq (filter valid (dicts_of rs)) (dicts_of rs)" by simp
  ultimately have "subseq (accepted rs) (dicts_of rs)" by (rule subseq_order.trans)
  then have "subseq (map Dict (accepted rs)) (map Dict (dicts_of rs))" by (rule subseq_map)
  from this dicts_of_subseq show ?thesis by (rule subseq_order.trans)
qed

lemma accepted_distinct: "distinct (map resolve_url (accepted rs))"
  unfolding accepted_def by (rule keep_first_distinct)


lemma source_of_str_title:
  "str_title r \<Longrightarrow> \<exists>s. source_of (raw_get_or r ''title'' (PStr [])) = Inr s"
  by (auto simp: str_title_def source_of_def split: pyval.splits)

lemma source_of_not_str_title:
  "\<not> str_title r \<Longrightarrow> source_of (raw_get_or r ''title'' (PStr [])) = Inl TypeError"
  by (auto simp: str_title_def source_of_def split: pyval.splits)

lemma clean_loop_Dict:
  "clean_loop seen cleaned (Dict r # rs) =
     (if accepts seen r
      then if str_title r
           then clean_loop (insert (resolve_url r) seen) (cleaned @ [normalize r]) rs
           else Inl TypeError
      else clean_loop seen cleaned rs)"
proof (cases "str_title r")
  case True
  then obtain s where "source_of (raw_get_or r ''title'' (PStr [])) = Inr s"
    using source_of_str_title by blast
  with True show ?thesis by (simp add: accepts_def normalize_def Let_def)
next
  case False
  then show ?thesis by (simp add: accepts_def Let_def source_of_not_str_title)
qed

declare clean_loop.simps(3) [simp del]

lemma fresh_empty: "fresh {} rs = accepted rs"
  by (simp add: fresh_def accepted_def)

lemma fresh_Nil: "fresh seen [] = []"
  by (simp add: fresh_def)

lemma fresh_NotADict: "fresh seen (NotADict # rs) = fresh seen rs"
  by (simp add: fresh_def)

lemma fresh_Dict:
  "fresh seen (Dict r # rs) =
     (if accepts seen r then r # fresh (insert (resolve_url r) seen) rs else fresh seen rs)"
proof -
  have "filter (\<lambda>y. resolve_url y \<noteq> resolve_url r)
          (filter (\<lambda>r. valid r \<and> resolve_url r \<notin> seen) (dicts_of rs)) =
        filter (\<lambda>x. valid x \<and> resolve_url x \<notin> insert (resolve_url r) seen) (dicts_of rs)"
    by (auto intro: filter_cong)
  then show ?thesis
    by (auto simp: fresh_def accepts_def valid_def)
qed

lemma clean_loop_fresh:
  "clean_loop seen cleaned rs =
     (if \<forall>r\<in>set (fresh seen rs). str_title r
      then Inr (seen \<union> resolve_url ` set (fresh seen rs), cleaned @ map normalize (fresh seen rs))
      else Inl TypeError)"
proof (induction rs arbitrary: seen cleaned)
  case Nil
  show ?case by (simp add: fresh_Nil)
next
  case (Cons x rs)
  show ?case
  proof (cases x)
    case NotADict
    with Cons [of seen cleaned] show ?thesis by (simp add: fresh_NotADict)
  next
    case (Dict r)
    show ?thesis
      unfolding Dict clean_loop_Dict fresh_Dict
      using Cons [of seen cleaned] Cons [of "insert (resolve_url r) seen" "cleaned @ [normalize r]"]
      by auto
  qed
qed

lemma clean_loop_accepted:
  "clean_loop {} [] rs =
     (if \<forall>r\<in>set (accepted rs). str_title r
      then Inr (resolve_url ` set (accepted rs), map normalize (accepted rs))
      else Inl TypeError)"
  using clean_loop_fresh [of "{}" "[]" rs] by (simp add: fresh_empty)

lemma clean_search_results_accepted:
  "clean_search_results rs =
     (if \<forall>r\<in>set (accepted rs). str_title r
      then Inr (take 5 (map normalize (accepted rs)))
      else Inl TypeError)"
  by (simp add: clean_search_results_def clean_loop_accepted)

lemma normalize_url: "normalize r ''url'' = Some (py_str (resolve_url r))"
  by (simp add: normalize_def document_def)

lemma distinct_str_urls:
  assumes "distinct (map resolve_url acc)" and "\<forall>r\<in>set acc. \<exists>u. resolve_url r = PStr u"
  shows "distinct (map (\<lambda>d. d ''url'') (map normalize acc))"
proof -
  have "inj_on (\<lambda>v. Some (py_str v)) (set (map resolve_url acc))"
  proof (rule inj_onI)
    fix v w
    assume v: "v \<in> set (map resolve_url acc)" and w: "w \<in> set (map resolve_url acc)"
      and eq: "Some (py_str v) = Some (py_str w)"
    from v obtain x where "x \<in> set acc" "v = resolve_url x" by auto
    with assms(2) obtain a where a: "v = PStr a" by auto
    from w obtain y where "y \<in> set acc" "w = resolve_url y" by auto
    with assms(2) obtain b where b: "w = PStr b" by auto
    note a b
    with eq show "v = w" by (simp add: py_str_def)
  qed
  with assms(1) have "distinct (map (\<lambda>v. Some (py_str v)) (map resolve_url acc))"
    by (simp only: distinct_map)
  then show ?thesis by (simp add: normalize_url comp_def)
qed

text \<open>
  C1, amended. For every batch of raw results, normalization returns the documents of the
  first 5 accepted records, in provider-return order, unless an accepted record has a
  title that is not a string, in which case it raises. The accepted records are the
  records with a url and a title, the first of each resolved url. So the result has length
  at most 5, no two accepted records have equal resolved urls, and when the resolved urls
  are strings no two documents have equal \<open>url\<close>.
\<close>

theorem clean_results_accepted_first_five:
  "clean_search_results rs =
     (if \<forall>r\<in>set (accepted rs). str_title r
      then Inr (take 5 (map normalize (accepted rs))) else Inl TypeError) \<and>
   subseq (map Dict (accepted rs)) rs \<and>
   distinct (map resolve_url (accepted rs)) \<and>
   (\<forall>docs. clean_search_results rs = Inr docs \<longrightarrow>
      length docs \<le> 5 \<and>
      ((\<forall>r\<in>set (accepted rs). \<exists>u. resolve_url r = PStr u) \<longrightarrow>
         distinct (map (\<lambda>d. d ''url'') docs)))"
proof -
  have d: "\<forall>docs. clean_search_results rs = Inr docs \<longrightarrow>
      length docs \<le> 5 \<and>
      ((\<forall>r\<in>set (accepted rs). \<exists>u. resolve_url r = PStr u) \<longrightarrow>
         distinct (map (\<lambda>d. d ''url'') docs))"
  proof (intro allI impI conjI)
    fix docs
    assume "clean_search_results rs = Inr docs"
    then have docs: "docs = take 5 (map normalize (accepted rs))"
      by (simp add: clean_search_results_accepted split: if_splits)
    then show "length docs \<le> 5" by simp
    assume "\<forall>r\<in>set (accepted rs). \<exists>u. resolve_url r = PStr u"
    with accepted_distinct have "distinct (map (\<lambda>d. d ''url'') (map normalize (accepted rs)))"
      by (rule distinct_str_urls)
    then have "distinct (take 5 (map (\<lambda>d. d ''url'') (map normalize (accepted rs))))"
      by (rule distinct_take)
    then show "distinct (map (\<lambda>d. d ''url'') docs)"
      by (simp only: docs take_map)
  qed
  from clean_search_results_accepted accepted_subseq accepted_distinct d
  show ?thesis by blast
qed

lemma value_simps:
  "resolve_url em_dash_result = PStr (asc ''http://a'')"
  "resolve_url hyphen_result = PStr (asc ''http://b'')"
  "resolve_url plain_result = PStr (asc ''http://c'')"
  "resolve_url empty_href_result = PStr (asc ''http://d'')"
  "resolve_url no_url_result = PStr []"
  "resolve_url untitled_result = PStr (asc ''http://a'')"
  "resolve_url int_url_result = PInt 1"
  "resolve_url str_url_result = PStr (asc ''1'')"
  "resolve_url none_content_result = PStr (asc ''http://e'')"
  "resolve_url int_title_result = PStr (asc ''http://f'')"
  by (simp_all add: resolve_url_def py_or_def truthy_def raw_get_def em_dash_result_def
      hyphen_result_def plain_result_def empty_href_result_def no_url_result_def
      untitled_result_def int_url_result_def str_url_result_def none_content_result_def
      int_title_result_def asc_def)

lemma title_simps:
  "raw_get_or em_dash_result ''title'' (PStr []) = PStr (asc ''A '' @ [EM_DASH] @ asc '' B'')"
  "raw_get_or hyphen_result ''title'' (PStr []) = PStr (asc ''A - B'')"
  "raw_get_or plain_result ''title'' (PStr []) = PStr (asc ''Plain'')"
  "raw_get_or empty_href_result ''title'' (PStr []) = PStr (asc ''T'')"
  "raw_get_or no_url_result ''title'' (PStr []) = PStr (asc ''No address'')"
  "raw_get_or untitled_result ''title'' (PStr []) = PStr []"
  "raw_get_or int_url_result ''title'' (PStr []) = PStr (asc ''a'')"
  "raw_get_or str_url_result ''title'' (PStr []) = PStr (asc ''b'')"
  "raw_get_or none_content_result ''title'' (PStr []) = PStr (asc ''N'')"
  "raw_get_or int_title_result ''title'' (PStr []) = PInt 7"
  by (simp_all add: raw_get_or_def em_dash_result_def hyphen_result_def plain_result_def
      empty_href_result_def no_url_result_def untitled_result_def int_url_result_def
      str_url_result_def none_content_result_def int_title_result_def)

lemma url_distinct_simps:
  "asc ''http://a'' \<noteq> asc ''http://b''" "asc ''http://b'' \<noteq> asc ''http://a''"
  "asc ''http://a'' \<noteq> asc ''http://c''" "asc ''http://b'' \<noteq> asc ''http://c''"
  "asc ''http://a'' \<noteq> []" "asc ''http://b'' \<noteq> []" "asc ''http://c'' \<noteq> []"
  "asc ''http://d'' \<noteq> []" "asc ''http://e'' \<noteq> []" "asc ''http://f'' \<noteq> []"
  "asc ''1'' \<noteq> []" "asc ''A - B'' \<noteq> []" "asc ''Plain'' \<noteq> []" "asc ''T'' \<noteq> []"
  "asc ''a'' \<noteq> []" "asc ''b'' \<noteq> []" "asc ''N'' \<noteq> []" "asc ''No address'' \<noteq> []"
  by (simp_all add: asc_def)

lemmas concrete_simps = value_simps title_simps url_distinct_simps valid_def accepts_def
  str_title_def truthy_def

lemma accepted_mixed_batch: "accepted mixed_batch = [em_dash_result, hyphen_result]"
  by (simp add: accepted_def mixed_batch_def concrete_simps)

theorem clean_results_accepted_first_five_witness:
  "clean_search_results mixed_batch = Inr [normalize em_dash_result, normalize hyphen_result] \<and>
   length [normalize em_dash_result, normalize hyphen_result] \<le> 5 \<and>
   distinct (map (\<lambda>d. d ''url'') [normalize em_dash_result, normalize hyphen_result])"
proof -
  have s: "\<forall>r\<in>set (accepted mixed_batch). str_title r"
    by (simp add: accepted_mixed_batch concrete_simps)
  have u: "\<forall>r\<in>set (accepted mixed_batch). \<exists>u. resolve_url r = PStr u"
    by (simp add: accepted_mixed_batch concrete_simps)
  from clean_results_accepted_first_five [of mixed_batch] s
  have r: "clean_search_results mixed_batch = Inr [normalize em_dash_result, normalize hyphen_result]"
    by (simp add: accepted_mixed_batch)
  with clean_results_accepted_first_five [of mixed_batch] u show ?thesis by blast
qed

lemma digits_1: "digits (Suc 0) = asc ''1''"
  by (subst digits.simps) (simp add: asc_def)

text \<open>
  C1 as stated: for every batch, no two documents of the result have equal \<open>url\<close>. The loop
  compares the urls as they were resolved and stores \<open>str(url)\<close>: the raw results with
  the urls \<open>1\<close>, an integer, and \<open>'1'\<close>, a string, are both accepted, and both documents
  have the url \<open>'1'\<close>.
\<close>

theorem int_url_counterexample:
  "clean_search_results [Dict int_url_result, Dict str_url_result] =
     Inr [normalize int_url_result, normalize str_url_result] \<and>
   normalize int_url_result ''url'' = Some (asc ''1'') \<and>
   normalize str_url_result ''url'' = Some (asc ''1'')"
  by (simp add: clean_search_results_accepted accepted_def concrete_simps normalize_url
      py_str_def digits_1)

section \<open>Splitting a title\<close>

lemma takeWhile_absent: "sep \<notin> set s \<Longrightarrow> takeWhile (\<lambda>c. c \<noteq> sep) s = s"
  by (induction s) auto

lemma text_after_last_absent: "sep \<notin> set s \<Longrightarrow> text_after_last sep s = s"
  by (simp add: text_after_last_def takeWhile_absent)

lemma text_after_last_append:
  "sep \<notin> set suf \<Longrightarrow> text_after_last sep (pre @ sep # suf) = suf"
  by (simp add: text_after_last_def takeWhile_append takeWhile_absent)

lemma split_acc_not_Nil: "split_acc sep cur s \<noteq> []"
  by (induction s arbitrary: cur) auto

lemma text_after_last_Cons:
  "text_after_last sep (c # cs) =
     (if sep \<in> set cs then text_after_last sep cs else if c = sep then cs else c # cs)"
  by (auto simp: text_after_last_def takeWhile_append)

lemma last_split_acc:
  "last (split_acc sep cur s) = (if sep \<in> set s then text_after_last sep s else cur @ s)"
proof (induction s arbitrary: cur)
  case Nil
  show ?case by simp
next
  case (Cons c cs)
  show ?case
  proof (cases "c = sep")
    case True
    then show ?thesis
      using Cons [of "[]"] by (simp add: split_acc_not_Nil text_after_last_Cons)
  next
    case False
    then show ?thesis
      using Cons [of "cur @ [c]"] by (simp add: text_after_last_Cons)
  qed
qed

lemma last_split_on:
  "last (split_on sep s) = text_after_last sep s"
  by (simp add: split_on_def last_split_acc text_after_last_absent)

lemma hd_split_acc: "hd (split_acc sep cur s) = cur @ text_before_first sep s"
  by (induction s arbitrary: cur) (auto simp: text_before_first_def)

lemma hd_split_on: "hd (split_on sep s) = text_before_first sep s"
  by (simp add: split_on_def hd_split_acc)

lemma source_of_eq:
  "source_of (PStr title) =
     Inr (strip (text_after_last (if EM_DASH \<in> set title then EM_DASH else HYPHEN) title))"
  by (simp add: source_of_def last_split_on)


lemma clean_loop_append:
  "clean_loop seen cleaned (rs @ rs') =
     (case clean_loop seen cleaned rs of
        Inl e \<Rightarrow> Inl e
      | Inr (seen', cleaned') \<Rightarrow> clean_loop seen' cleaned' rs')"
proof (induction rs arbitrary: seen cleaned)
  case Nil
  show ?case by simp
next
  case (Cons x rs)
  show ?case
  proof (cases x)
    case NotADict
    with Cons [of seen cleaned] show ?thesis by simp
  next
    case (Dict r)
    show ?thesis
      unfolding Dict append_Cons clean_loop_Dict
      using Cons [of seen cleaned] Cons [of "insert (resolve_url r) seen" "cleaned @ [normalize r]"]
      by simp
  qed
qed

lemma clean_loop_snoc:
  assumes "clean_loop seen0 cleaned0 rs = Inr (seen, cleaned)"
  shows "clean_loop seen0 cleaned0 (rs @ [Dict r]) =
     (if accepts seen r
      then if str_title r then Inr (insert (resolve_url r) seen, cleaned @ [normalize r])
           else Inl TypeError
      else Inr (seen, cleaned))"
    and "clean_loop seen0 cleaned0 (rs @ [NotADict]) = Inr (seen, cleaned)"
  using assms by (simp_all add: clean_loop_append clean_loop_Dict)

lemma normalize_source:
  "raw_get_or r ''title'' (PStr []) = PStr title \<Longrightarrow>
     normalize r ''source'' =
       Some (take 100 (strip (text_after_last
               (if EM_DASH \<in> set title then EM_DASH else HYPHEN) title)))"
  by (simp add: normalize_def document_def source_of_eq)

text \<open>
  C4. For every accepted raw result, the \<open>source\<close> of its document is computed by splitting
  the title on the em-dash when the title contains one, otherwise on the hyphen, taking the
  last segment (the text after the last separator), trimming whitespace and truncating to
  100 characters; when the title contains neither separator, \<open>source\<close> is the full title,
  trimmed and truncated to 100 characters.
\<close>

theorem source_derivation:
  assumes "clean_loop {} [] rs = Inr (seen, cleaned)" and "accepts seen r"
    and "r ''title'' = Some (PStr title)"
  shows "clean_loop {} [] (rs @ [Dict r]) =
           Inr (insert (resolve_url r) seen, cleaned @ [normalize r]) \<and>
         normalize r ''source'' =
           Some (take 100 (strip (text_after_last
                   (if EM_DASH \<in> set title then EM_DASH else HYPHEN) title))) \<and>
         (EM_DASH \<notin> set title \<and> HYPHEN \<notin> set title \<longrightarrow>
            normalize r ''source'' = Some (take 100 (strip title)))"
proof -
  have t: "raw_get_or r ''title'' (PStr []) = PStr title"
    using assms(3) by (simp add: raw_get_or_def)
  then have st: "str_title r" by (simp add: str_title_def)
  have a: "clean_loop {} [] (rs @ [Dict r]) =
           Inr (insert (resolve_url r) seen, cleaned @ [normalize r])"
    using clean_loop_snoc(1) [OF assms(1), of r] assms(2) st by simp
  have b: "normalize r ''source'' =
           Some (take 100 (strip (text_after_last
                   (if EM_DASH \<in> set title then EM_DASH else HYPHEN) title)))"
    using t by (rule normalize_source)
  have c: "EM_DASH \<notin> set title \<and> HYPHEN \<notin> set title \<longrightarrow>
            normalize r ''source'' = Some (take 100 (strip title))"
    using b by (simp add: text_after_last_absent)
  from a b c show ?thesis by blast
qed

lemma clean_loop_two:
  "clean_loop {} [] [Dict em_dash_result, Dict hyphen_result] =
     Inr ({PStr (asc ''http://a''), PStr (asc ''http://b'')},
          [normalize em_dash_result, normalize hyphen_result])"
  by (simp add: clean_loop_Dict concrete_simps insert_commute)

theorem source_derivation_witness:
  "normalize em_dash_result ''source'' = Some (asc ''B'') \<and>
   normalize hyphen_result ''source'' = Some (asc ''B'') \<and>
   clean_loop {} [] ([Dict em_dash_result, Dict hyphen_result] @ [Dict plain_result]) =
     Inr (insert (resolve_url plain_result) {PStr (asc ''http://a''), PStr (asc ''http://b'')},
          [normalize em_dash_result, normalize hyphen_result] @ [normalize plain_result]) \<and>
   normalize plain_result ''source'' = Some (asc ''Plain'')"
proof -
  have l0: "clean_loop {} [] [] = Inr ({}, [])" by simp
  have a1: "accepts {} em_dash_result" by (simp add: concrete_simps)
  have t1: "em_dash_result ''title'' = Some (PStr (asc ''A '' @ [EM_DASH] @ asc '' B''))"
    by (simp add: em_dash_result_def)
  have a2: "accepts {} hyphen_result" by (simp add: concrete_simps)
  have t2: "hyphen_result ''title'' = Some (PStr (asc ''A - B''))"
    by (simp add: hyphen_result_def)
  have a3: "accepts {PStr (asc ''http://a''), PStr (asc ''http://b'')} plain_result"
    by (simp add: concrete_simps) (simp add: asc_def)
  have t3: "plain_result ''title'' = Some (PStr (asc ''Plain''))"
    by (simp add: plain_result_def)
  have e1: "take 100 (strip (text_after_last EM_DASH (asc ''A '' @ [EM_DASH] @ asc '' B''))) = asc ''B''"
    by (simp add: text_after_last_def strip_def isspace_def EM_DASH_def asc_def)
  have e2: "take 100 (strip (text_after_last HYPHEN (asc ''A - B''))) = asc ''B''"
    by (simp add: text_after_last_def strip_def isspace_def HYPHEN_def asc_def)
  have e3: "take 100 (strip (asc ''Plain'')) = asc ''Plain''"
    by (simp add: strip_def isspace_def asc_def)
  have n1: "EM_DASH \<in> set (asc ''A '' @ [EM_DASH] @ asc '' B'')" by simp
  have n2: "EM_DASH \<notin> set (asc ''A - B'')" by (simp add: EM_DASH_def asc_def)
  have n3: "EM_DASH \<notin> set (asc ''Plain'') \<and> HYPHEN \<notin> set (asc ''Plain'')"
    by (simp add: EM_DASH_def HYPHEN_def asc_def)
  from source_derivation [OF l0 a1 t1] n1 e1
  have "normalize em_dash_result ''source'' = Some (asc ''B'')" by simp
  moreover from source_derivation [OF l0 a2 t2] n2 e2
  have "normalize hyphen_result ''source'' = Some (asc ''B'')" by simp
  moreover from source_derivation [OF clean_loop_two a3 t3] n3
  have "clean_loop {} [] ([Dict em_dash_result, Dict hyphen_result] @ [Dict plain_result]) =
     Inr (insert (resolve_url plain_result) {PStr (asc ''http://a''), PStr (asc ''http://b'')},
          [normalize em_dash_result, normalize hyphen_result] @ [normalize plain_result]) \<and>
     normalize plain_result ''source'' = Some (take 100 (strip (asc ''Plain'')))" by blast
  ultimately show ?thesis by (simp only: e3)
qed

section \<open>Which raw results are skipped\<close>

lemma resolve_url_first_truthy: "resolve_url r = first_truthy r [''href'', ''url''] (PStr [])"
  by (simp add: resolve_url_def py_or_def raw_get_def truthy_def split: option.splits)

lemma resolve_content_first_truthy:
  "resolve_content r =
     first_truthy r [''body'', ''description''] (raw_get_or r ''content'' (PStr []))"
  by (simp add: resolve_content_def py_or_def raw_get_def truthy_def split: option.splits)

lemma normalize_content: "normalize r ''content'' = Some (take 500 (py_str (resolve_content r)))"
  by (simp add: normalize_def document_def)

lemma clean_loop_Inr_accepted:
  "clean_loop {} [] rs = Inr (seen, cleaned) \<Longrightarrow>
     seen = resolve_url ` set (accepted rs) \<and> cleaned = map normalize (accepted rs)"
  by (simp add: clean_loop_accepted split: if_splits)

text \<open>
  C6 as stated: the url is the first present alias among \<open>href\<close> and \<open>url\<close>, and a record
  is skipped exactly when that url is empty, the title is empty, or the url was already
  seen earlier in the batch. A record whose \<open>href\<close> is present and empty and whose \<open>url\<close>
  is not empty has an empty first present alias, yet it is accepted, under its \<open>url\<close>. And a
  record is accepted although its url occurred earlier in the batch, when the earlier record
  was skipped for its missing title.
\<close>

theorem empty_href_counterexample:
  "spec_first_present empty_href_result [''href'', ''url''] = PStr [] \<and>
   resolve_url empty_href_result = PStr (asc ''http://d'') \<and>
   clean_search_results [Dict empty_href_result] = Inr [normalize empty_href_result] \<and>
   resolve_url untitled_result = resolve_url em_dash_result \<and>
   clean_search_results [Dict untitled_result, Dict em_dash_result] =
     Inr [normalize em_dash_result]"
  by (simp add: clean_search_results_accepted accepted_def concrete_simps)
    (simp add: empty_href_result_def)

text \<open>
  C6, amended. For every raw result in a batch, normalization resolves \<open>url\<close> as the first
  value under \<open>href\<close>, \<open>url\<close> that is a true value (present, not \<open>None\<close>, not empty), the
  empty string when there is none, and \<open>content\<close> as the first true value under \<open>body\<close>,
  \<open>description\<close>, otherwise the value under \<open>content\<close> whatever it is, the empty string
  when that key is missing; the document stores \<open>str(url)\<close> and the first 500 characters
  of \<open>str(content)\<close>. It skips an item that is not a record, and skips a record exactly
  when the resolved url is not a true value, the title is not a true value, or the url is
  the resolved url of a record accepted earlier in the same batch (the values compared as
  they were resolved); an accepted record whose title is not a string makes it raise. The
  result is the first 5 accepted documents. In particular every raw result missing both
  \<open>href\<close> and \<open>url\<close> is excluded.
\<close>

theorem normalization_skips:
  "resolve_url r = first_truthy r [''href'', ''url''] (PStr []) \<and>
   resolve_content r =
     first_truthy r [''body'', ''description''] (raw_get_or r ''content'' (PStr [])) \<and>
   normalize r ''url'' = Some (py_str (resolve_url r)) \<and>
   normalize r ''content'' = Some (take 500 (py_str (resolve_content r))) \<and>
   (clean_loop {} [] rs = Inr (seen, cleaned) \<longrightarrow>
      seen = resolve_url ` set (accepted rs) \<and> cleaned = map normalize (accepted rs) \<and>
      clean_loop {} [] (rs @ [NotADict]) = Inr (seen, cleaned) \<and>
      clean_loop {} [] (rs @ [Dict r]) =
        (if \<not> truthy (resolve_url r) \<or> \<not> truthy (raw_get_or r ''title'' (PStr [])) \<or>
            resolve_url r \<in> seen
         then Inr (seen, cleaned)
         else if str_title r then Inr (insert (resolve_url r) seen, cleaned @ [normalize r])
         else Inl TypeError) \<and>
      (r ''href'' = None \<and> r ''url'' = None \<longrightarrow>
         clean_loop {} [] (rs @ [Dict r]) = Inr (seen, cleaned))) \<and>
   clean_search_results rs =
     (case clean_loop {} [] rs of
        Inl e \<Rightarrow> Inl e
      | Inr (seen, cleaned) \<Rightarrow> Inr (take 5 cleaned))"
proof -
  have loop: "clean_loop {} [] rs = Inr (seen, cleaned) \<longrightarrow>
      seen = resolve_url ` set (accepted rs) \<and> cleaned = map normalize (accepted rs) \<and>
      clean_loop {} [] (rs @ [NotADict]) = Inr (seen, cleaned) \<and>
      clean_loop {} [] (rs @ [Dict r]) =
        (if \<not> truthy (resolve_url r) \<or> \<not> truthy (raw_get_or r ''title'' (PStr [])) \<or>
            resolve_url r \<in> seen
         then Inr (seen, cleaned)
         else if str_title r then Inr (insert (resolve_url r) seen, cleaned @ [normalize r])
         else Inl TypeError) \<and>
      (r ''href'' = None \<and> r ''url'' = None \<longrightarrow>
         clean_loop {} [] (rs @ [Dict r]) = Inr (seen, cleaned))"
  proof
    assume l: "clean_loop {} [] rs = Inr (seen, cleaned)"
    have step: "clean_loop {} [] (rs @ [Dict r]) =
        (if \<not> truthy (resolve_url r) \<or> \<not> truthy (raw_get_or r ''title'' (PStr [])) \<or>
            resolve_url r \<in> seen
         then Inr (seen, cleaned)
         else if str_title r then Inr (insert (resolve_url r) seen, cleaned @ [normalize r])
         else Inl TypeError)"
      using clean_loop_snoc(1) [OF l, of r] by (simp add: accepts_def)
    have missing: "r ''href'' = None \<and> r ''url'' = None \<longrightarrow>
         clean_loop {} [] (rs @ [Dict r]) = Inr (seen, cleaned)"
    proof
      assume "r ''href'' = None \<and> r ''url'' = None"
      then have "\<not> truthy (resolve_url r)"
        by (simp add: resolve_url_def py_or_def raw_get_def truthy_def)
      with step show "clean_loop {} [] (rs @ [Dict r]) = Inr (seen, cleaned)" by simp
    qed
    from clean_loop_Inr_accepted [OF l] clean_loop_snoc(2) [OF l] step missing
    show "seen = resolve_url ` set (accepted rs) \<and> cleaned = map normalize (accepted rs) \<and>
      clean_loop {} [] (rs @ [NotADict]) = Inr (seen, cleaned) \<and>
      clean_loop {} [] (rs @ [Dict r]) =
        (if \<not> truthy (resolve_url r) \<or> \<not> truthy (raw_get_or r ''title'' (PStr [])) \<or>
            resolve_url r \<in> seen
         then Inr (seen, cleaned)
         else if str_title r then Inr (insert (resolve_url r) seen, cleaned @ [normalize r])
         else Inl TypeError) \<and>
      (r ''href'' = None \<and> r ''url'' = None \<longrightarrow>
         clean_loop {} [] (rs @ [Dict r]) = Inr (seen, cleaned))"
      by blast
  qed
  have top: "clean_search_results rs =
     (case clean_loop {} [] rs of
        Inl e \<Rightarrow> Inl e
      | Inr (seen, cleaned) \<Rightarrow> Inr (take 5 cleaned))"
    by (simp add: clean_search_results_def)
  from resolve_url_first_truthy resolve_content_first_truthy normalize_url normalize_content
    loop top
  show ?thesis by blast
qed

lemma clean_loop_one:
  "clean_loop {} [] [Dict em_dash_result] =
     Inr ({PStr (asc ''http://a'')}, [normalize em_dash_result])"
  by (simp add: clean_loop_Dict concrete_simps)

theorem normalization_skips_witness:
  "clean_loop {} [] ([Dict em_dash_result] @ [Dict no_url_result]) =
     Inr ({PStr (asc ''http://a'')}, [normalize em_dash_result]) \<and>
   clean_loop {} [] ([Dict em_dash_result] @ [Dict em_dash_result]) =
     Inr ({PStr (asc ''http://a'')}, [normalize em_dash_result]) \<and>
   clean_loop {} [] ([Dict em_dash_result] @ [Dict hyphen_result]) =
     Inr (insert (PStr (asc ''http://b'')) {PStr (asc ''http://a'')},
          [normalize em_dash_result] @ [normalize hyphen_result]) \<and>
   clean_loop {} [] ([Dict em_dash_result] @ [Dict int_title_result]) = Inl TypeError \<and>
   normalize none_content_result ''content'' = Some (asc ''None'')"
proof -
  have h: "no_url_result ''href'' = None \<and> no_url_result ''url'' = None"
    by (simp add: no_url_result_def)
  have c: "resolve_content none_content_result = PNone"
    by (simp add: first_truthy.simps resolve_content_first_truthy raw_get_or_def
        none_content_result_def)
  from normalization_skips [of no_url_result "[Dict em_dash_result]"] clean_loop_one h
  have "clean_loop {} [] ([Dict em_dash_result] @ [Dict no_url_result]) =
     Inr ({PStr (asc ''http://a'')}, [normalize em_dash_result])" by blast
  moreover from normalization_skips [of em_dash_result "[Dict em_dash_result]"
      "{PStr (asc ''http://a'')}" "[normalize em_dash_result]"] clean_loop_one
  have "clean_loop {} [] ([Dict em_dash_result] @ [Dict em_dash_result]) =
     Inr ({PStr (asc ''http://a'')}, [normalize em_dash_result])"
    by (simp add: concrete_simps)
  moreover from normalization_skips [of hyphen_result "[Dict em_dash_result]"
      "{PStr (asc ''http://a'')}" "[normalize em_dash_result]"] clean_loop_one
  have "clean_loop {} [] ([Dict em_dash_result] @ [Dict hyphen_result]) =
     Inr (insert (PStr (asc ''http://b'')) {PStr (asc ''http://a'')},
          [normalize em_dash_result] @ [normalize hyphen_result])"
    by (simp add: concrete_simps)
  moreover from normalization_skips [of int_title_result "[Dict em_dash_result]"
      "{PStr (asc ''http://a'')}" "[normalize em_dash_result]"] clean_loop_one
  have "clean_loop {} [] ([Dict em_dash_result] @ [Dict int_title_result]) = Inl TypeError"
    by (simp add: concrete_simps) (simp add: asc_def)
  moreover from normalization_skips [of none_content_result] c
  have "normalize none_content_result ''content'' = Some (asc ''None'')"
    by (simp add: py_str_def asc_def)
  ultimately show ?thesis by blast
qed

section \<open>The title of a link\<close>

lemma link_of_title_present:
  "result ''title'' = Some title \<Longrightarrow>
     link_of result ''title'' = Some (strip (text_before_first EM_DASH title))"
  by (simp add: link_of_def get_or_def hd_split_on)

lemma normalize_title:
  "normalize r ''title'' = Some (take 200 (py_str (raw_get_or r ''title'' (PStr []))))"
  by (simp add: normalize_def document_def)

text \<open>
  C5. The title of a link is the portion of the document's title before the attribution
  separator, the em-dash if present, else the hyphen. The raw result with the title
  \<open>A - B\<close> is accepted with the source \<open>B\<close>, taken after the hyphen, and the link built
  from its document keeps the whole title \<open>A - B\<close>: the link's title is split on the
  em-dash only.
\<close>

theorem hyphen_link_title_kept:
  "clean_search_results [Dict hyphen_result] = Inr [normalize hyphen_result] \<and>
   normalize hyphen_result ''title'' = Some (asc ''A - B'') \<and>
   normalize hyphen_result ''source'' = Some (asc ''B'') \<and>
   link_of (normalize hyphen_result) ''title'' = Some (asc ''A - B'') \<and>
   link_of (normalize hyphen_result) ''source'' = Some (asc ''B'')"
proof -
  have a: "clean_search_results [Dict hyphen_result] = Inr [normalize hyphen_result]"
    by (simp add: clean_search_results_accepted accepted_def concrete_simps)
  have t: "normalize hyphen_result ''title'' = Some (asc ''A - B'')"
    by (simp add: normalize_title title_simps py_str_def) (simp add: asc_def)
  have "take 100 (strip (text_after_last HYPHEN (asc ''A - B''))) = asc ''B''"
    by (simp add: text_after_last_def strip_def isspace_def HYPHEN_def asc_def)
  moreover have "EM_DASH \<notin> set (asc ''A - B'')" by (simp add: EM_DASH_def asc_def)
  ultimately have s: "normalize hyphen_result ''source'' = Some (asc ''B'')"
    using normalize_source [of hyphen_result "asc ''A - B''"] by (simp add: title_simps)
  have "strip (text_before_first EM_DASH (asc ''A - B'')) = asc ''A - B''"
    by (simp add: text_before_first_def strip_def isspace_def EM_DASH_def asc_def)
  with link_of_title_present [of "normalize hyphen_result", OF t]
  have l: "link_of (normalize hyphen_result) ''title'' = Some (asc ''A - B'')" by simp
  have ls: "link_of (normalize hyphen_result) ''source'' = Some (asc ''B'')"
    using s by (simp add: link_of_def get_or_def)
  from a t s l ls show ?thesis by blast
qed

section \<open>The links markup\<close>





















end
